theory Spec2Isabelle
  imports Main "HOL-Library.Sublist" "HOL-Library.Log_Nat"
begin

section \<open>Python values used by the recommender\<close>

text \<open>
  A Python \<open>str\<close> is modelled as a \<open>string\<close> whose characters are the code points
  below 256. The character classes are Python's on that range: \<open>str.isspace\<close> (it is
  also the class \<open>\s\<close> of \<open>re\<close> and what \<open>str.strip\<close> removes) holds for the code
  points 9 to 13, 28 to 32, 133 and 160, and \<open>\d\<close> holds for 48 to 57. \<open>str.lower\<close> and
  \<open>str.upper\<close> are modelled on the 26 letters of ASCII and leave every other code point
  as it is. Python also maps letters above 127; since no keyword, table key or pattern
  letter of the program is outside ASCII, those mappings change no result here.
\<close>

definition code_point :: "char \<Rightarrow> nat" where
  "code_point c = of_char c"

definition is_space :: "char \<Rightarrow> bool" where
  "is_space c =
    (let n = code_point c in (9 \<le> n \<and> n \<le> 13) \<or> (28 \<le> n \<and> n \<le> 32) \<or> n = 133 \<or> n = 160)"

definition is_digit :: "char \<Rightarrow> bool" where
  "is_digit c = (let n = code_point c in 48 \<le> n \<and> n \<le> 57)"

definition lower_char :: "char \<Rightarrow> char" where
  "lower_char c = (let n = code_point c in if 65 \<le> n \<and> n \<le> 90 then char_of (n + 32) else c)"

definition upper_char :: "char \<Rightarrow> char" where
  "upper_char c = (let n = code_point c in if 97 \<le> n \<and> n \<le> 122 then char_of (n - 32) else c)"

definition str_lower :: "string \<Rightarrow> string" where
  "str_lower s = map lower_char s"

definition str_upper :: "string \<Rightarrow> string" where
  "str_upper s = map upper_char s"

text \<open>\<open>s.strip()\<close>: whitespace is removed from both ends.\<close>

definition str_strip :: "string \<Rightarrow> string" where
  "str_strip s = rev (dropWhile is_space (rev (dropWhile is_space s)))"

text \<open>\<open>kw in s\<close> on strings: \<open>kw\<close> occurs in \<open>s\<close> as a contiguous substring.\<close>

fun str_contains :: "string \<Rightarrow> string \<Rightarrow> bool" where
  "str_contains kw [] = (kw = [])"
| "str_contains kw (c # cs) = (prefix kw (c # cs) \<or> str_contains kw cs)"

text \<open>Truthiness of an optional string: \<open>None\<close> and the empty string are falsy.\<close>

fun truthy :: "string option \<Rightarrow> bool" where
  "truthy None = False"
| "truthy (Some s) = (s \<noteq> [])"

text \<open>
  A slice \<open>xs[:k]\<close> with a Python integer \<open>k\<close>: the first \<open>k\<close> elements when
  \<open>k\<close> is not negative, all but the last \<open>-k\<close> elements when it is.
\<close>

definition slice_to :: "int \<Rightarrow> 'a list \<Rightarrow> 'a list" where
  "slice_to k xs = (if 0 \<le> k then take (nat k) xs else take (length xs - nat (- k)) xs)"

subsection \<open>Candidate records\<close>

text \<open>
  A candidate is a dictionary read from the metadata array. Each key the pipeline reads
  is a field that is missing, holds \<open>None\<close>, or holds a value; \<open>c.get(k)\<close> and
  \<open>c.get(k, d)\<close> differ on a missing key only. The keys the pipeline never reads
  (description, tags, text blob, retrieval score) stay in the record's extension, so
  that equality of candidates compares them as Python's \<open>==\<close> on dictionaries does.
\<close>

datatype 'a field = Missing | Null | Val 'a

fun dict_get :: "'a field \<Rightarrow> 'a option" where
  "dict_get Missing = None"
| "dict_get Null = None"
| "dict_get (Val v) = Some v"

fun dict_get_default :: "'a field \<Rightarrow> 'a \<Rightarrow> 'a option" where
  "dict_get_default Missing d = Some d"
| "dict_get_default Null d = None"
| "dict_get_default (Val v) d = Some v"

record candidate =
  name :: "string field"
  url :: "string field"
  test_type :: "string field"
  duration_minutes :: "int field"
  category :: "string field"

section \<open>rerank.py\<close>

subsection \<open>categorize_test_type\<close>

datatype domain = Technical | Behavioral | Cognitive | Other

definition mapping :: "(string \<times> domain) list" where
  "mapping =
    [(''K'', Technical), (''P'', Behavioral), (''C'', Cognitive), (''L'', Behavioral),
     (''V'', Technical), (''N'', Cognitive), (''R'', Cognitive)]"

definition categorize_test_type :: "string option \<Rightarrow> domain" where
  "categorize_test_type code =
    (case code of
       None \<Rightarrow> Other
     | Some t \<Rightarrow>
         if t = [] then Other
         else (case map_of mapping (str_strip (str_upper t)) of
                 None \<Rightarrow> Other
               | Some d \<Rightarrow> d))"

subsection \<open>apply_duration_filter\<close>

text \<open>The loop of \<open>apply_duration_filter\<close>, with the list \<open>filtered\<close> it appends to.\<close>

fun duration_loop :: "int \<Rightarrow> ('z candidate_scheme) list \<Rightarrow> ('z candidate_scheme) list
    \<Rightarrow> ('z candidate_scheme) list" where
  "duration_loop max_minutes [] filtered = filtered"
| "duration_loop max_minutes (c # cs) filtered =
    (case dict_get (duration_minutes c) of
       None \<Rightarrow> duration_loop max_minutes cs (filtered @ [c])
     | Some dur \<Rightarrow>
         if dur \<le> max_minutes then duration_loop max_minutes cs (filtered @ [c])
         else duration_loop max_minutes cs filtered)"

definition apply_duration_filter :: "('z candidate_scheme) list \<Rightarrow> int option
    \<Rightarrow> ('z candidate_scheme) list" where
  "apply_duration_filter candidates max_minutes =
    (case max_minutes of
       None \<Rightarrow> candidates
     | Some m \<Rightarrow> duration_loop m candidates [])"

text \<open>The condition under which the filter keeps a candidate, in the words of the specification.\<close>

definition within_duration :: "int \<Rightarrow> 'z candidate_scheme \<Rightarrow> bool" where
  "within_duration m c =
    (case dict_get (duration_minutes c) of None \<Rightarrow> True | Some dur \<Rightarrow> dur \<le> m)"

subsection \<open>Regular expressions of infer_max_duration\<close>

text \<open>
  The two patterns are built from digits (\<open>\d\<close>), whitespace (\<open>\s\<close>), literal
  characters, sequence, the greedy quantifiers \<open>?\<close>, \<open>*\<close> and \<open>+\<close>. A literal is
  compared without regard to case, as under \<open>re.IGNORECASE\<close>. \<open>re_match r s\<close> lists,
  in the order a backtracking matcher tries them, the rests of \<open>s\<close> that remain after
  \<open>r\<close> has matched a prefix of \<open>s\<close>.
\<close>

datatype regex = Digit | Space | Chr char | Seq regex regex | Opt regex | Star regex

fun re_match :: "regex \<Rightarrow> string \<Rightarrow> string list" where
  "re_match Digit s = (case s of [] \<Rightarrow> [] | c # cs \<Rightarrow> if is_digit c then [cs] else [])"
| "re_match Space s = (case s of [] \<Rightarrow> [] | c # cs \<Rightarrow> if is_space c then [cs] else [])"
| "re_match (Chr a) s =
    (case s of [] \<Rightarrow> [] | c # cs \<Rightarrow> if lower_char c = lower_char a then [cs] else [])"
| "re_match (Seq r1 r2) s = concat (map (re_match r2) (re_match r1 s))"
| "re_match (Opt r) s = re_match r s @ [s]"
| "re_match (Star r) s =
    concat (map (\<lambda>s'. if length s' < length s then re_match (Star r) s' else [])
                (re_match r s)) @ [s]"

text \<open>The equation of \<open>Star\<close> unfolds itself: it is used by hand only.\<close>

declare re_match.simps(6) [simp del]

definition Plus :: "regex \<Rightarrow> regex" where
  "Plus r = Seq r (Star r)"

text \<open>
  Both patterns are a capturing group followed by a tail. \<open>match_group g tail s\<close> is
  \<open>group(1)\<close> of a match that starts at the beginning of \<open>s\<close>: the text consumed by
  the first way of matching \<open>g\<close> after which \<open>tail\<close> matches. \<open>re_search\<close> tries every
  start position from left to right, as \<open>re.search\<close> does.
\<close>

definition match_group :: "regex \<Rightarrow> regex \<Rightarrow> string \<Rightarrow> string option" where
  "match_group g tail s =
    (case filter (\<lambda>s1. re_match tail s1 \<noteq> []) (re_match g s) of
       [] \<Rightarrow> None
     | s1 # _ \<Rightarrow> Some (take (length s - length s1) s))"

fun re_search :: "regex \<Rightarrow> regex \<Rightarrow> string \<Rightarrow> string option" where
  "re_search g tail [] = match_group g tail []"
| "re_search g tail (c # cs) =
    (case match_group g tail (c # cs) of
       Some m \<Rightarrow> Some m
     | None \<Rightarrow> re_search g tail cs)"

text \<open>The group \<open>(\d+(?:\.\d+)?)\<close> and the tails \<open>\s*hours?\<close> and \<open>\s*mins?\<close>.\<close>

definition number_group :: regex where
  "number_group = Seq (Plus Digit) (Opt (Seq (Chr CHR ''.'') (Plus Digit)))"

definition hours_tail :: regex where
  "hours_tail =
    Seq (Star Space) (Seq (Chr CHR ''h'') (Seq (Chr CHR ''o'') (Seq (Chr CHR ''u'')
      (Seq (Chr CHR ''r'') (Opt (Chr CHR ''s''))))))"

definition mins_tail :: regex where
  "mins_tail =
    Seq (Star Space) (Seq (Chr CHR ''m'') (Seq (Chr CHR ''i'') (Seq (Chr CHR ''n'')
      (Opt (Chr CHR ''s'')))))"

definition patterns :: "(regex \<times> regex \<times> int) list" where
  "patterns = [(number_group, hours_tail, 60), (number_group, mins_tail, 1)]"

subsection \<open>Python floats of infer_max_duration\<close>

text \<open>
  \<open>float(match.group(1))\<close> is the IEEE 754 binary64 number nearest to the decimal
  (ties to even), \<open>value * multiplier\<close> is the rounded binary64 product, and \<open>int\<close>
  truncates; \<open>int\<close> of an infinity raises \<open>OverflowError\<close>. Only non-negative floats
  occur. A finite float is kept as the fraction of two integers it equals.
\<close>

datatype error = ValueError | OverflowError | FetchError | RetrievalError

datatype pyfloat = Finite int int | Infinity

definition round_half_even :: "int \<Rightarrow> int \<Rightarrow> int" where
  "round_half_even a b =
    (let q = a div b; r = a mod b in
     if 2 * r < b then q
     else if b < 2 * r then q + 1
     else if even q then q else q + 1)"

text \<open>
  \<open>round_b64 num den\<close> rounds the fraction \<open>num / den\<close> (\<open>0 \<le> num\<close>, \<open>0 < den\<close>) to
  binary64: 53 significant bits, least exponent \<open>-1074\<close>, infinity from \<open>2 ^ 1024\<close> on.
\<close>

definition round_b64 :: "int \<Rightarrow> int \<Rightarrow> pyfloat" where
  "round_b64 num den =
    (if num = 0 then Finite 0 1
     else
       let l0 = bitlen num - bitlen den;
           l = (if (if 0 \<le> l0 then den * 2 ^ nat l0 \<le> num else den \<le> num * 2 ^ nat (- l0))
                then l0 else l0 - 1);
           e = max (l - 52) (- 1074)
       in if 0 \<le> e then
            (let m = round_half_even num (den * 2 ^ nat e) in
             if 2 ^ 1024 \<le> m * 2 ^ nat e then Infinity else Finite (m * 2 ^ nat e) 1)
          else Finite (round_half_even (num * 2 ^ nat (- e)) den) (2 ^ nat (- e)))"

definition digits_value :: "string \<Rightarrow> int" where
  "digits_value ds = foldl (\<lambda>acc c. 10 * acc + (int (code_point c) - 48)) 0 ds"

text \<open>\<open>float(s)\<close> for a text \<open>s\<close> of the form digits, or digits, a dot, digits.\<close>

definition py_float :: "string \<Rightarrow> pyfloat" where
  "py_float s =
    (let ip = takeWhile is_digit s; fp = drop (length ip + 1) s
     in round_b64 (digits_value (ip @ fp)) (10 ^ length fp))"

fun float_mul :: "pyfloat \<Rightarrow> int \<Rightarrow> pyfloat" where
  "float_mul (Finite n d) multiplier = round_b64 (n * multiplier) d"
| "float_mul Infinity multiplier = Infinity"

fun py_int :: "pyfloat \<Rightarrow> error + int" where
  "py_int (Finite n d) = Inr (n div d)"
| "py_int Infinity = Inl OverflowError"

subsection \<open>infer_max_duration\<close>

text \<open>The loop over \<open>patterns\<close>: the first pattern that is found in the query returns.\<close>

fun patterns_loop :: "(regex \<times> regex \<times> int) list \<Rightarrow> string \<Rightarrow> error + int option" where
  "patterns_loop [] query = Inr None"
| "patterns_loop ((g, tail, multiplier) # ps) query =
    (case re_search g tail query of
       Some m \<Rightarrow>
         (case py_int (float_mul (py_float m) multiplier) of
            Inl e \<Rightarrow> Inl e
          | Inr v \<Rightarrow> Inr (Some v))
     | None \<Rightarrow> patterns_loop ps query)"

definition infer_max_duration :: "string \<Rightarrow> error + int option" where
  "infer_max_duration query = patterns_loop patterns query"

subsection \<open>infer_desired_domains\<close>

definition technical_kw :: "string list" where
  "technical_kw =
    [''java'', ''python'', ''sql'', ''javascript'', ''react'', ''developer'', ''engineer'',
     ''frontend'', ''backend'', ''coding'', ''automation'', ''testing'', ''qa'', ''technical'',
     ''programming'', ''knowledge'', ''skill'', ''proficient'', ''expertise'', ''expertise'']"

definition behavioral_kw :: "string list" where
  "behavioral_kw =
    [''collaborate'', ''communication'', ''personality'', ''leadership'', ''team'',
     ''interpersonal'', ''behavioral'', ''soft skill'', ''culture'', ''fit'', ''manager'',
     ''management'']"

definition cognitive_kw :: "string list" where
  "cognitive_kw =
    [''cognitive'', ''reasoning'', ''analytical'', ''logical'', ''problem'', ''iq'',
     ''aptitude'', ''numeracy'', ''verbal'', ''ability'']"

record desired_domains =
  wants_technical :: bool
  wants_behavioral :: bool
  wants_cognitive :: bool

text \<open>\<open>any(kw in query_lower for kw in kws)\<close>\<close>

definition any_kw_in :: "string list \<Rightarrow> string \<Rightarrow> bool" where
  "any_kw_in kws query_lower = list_ex (\<lambda>kw. str_contains kw query_lower) kws"

definition infer_desired_domains :: "string \<Rightarrow> desired_domains" where
  "infer_desired_domains query =
    (let query_lower = str_lower query in
     \<lparr>wants_technical = any_kw_in technical_kw query_lower,
      wants_behavioral = any_kw_in behavioral_kw query_lower,
      wants_cognitive = any_kw_in cognitive_kw query_lower\<rparr>)"

subsection \<open>balance_by_domains\<close>

text \<open>
  The loop that sorts the candidates into the four lists \<open>tech_candidates\<close>,
  \<open>behav_candidates\<close>, \<open>cog_candidates\<close> and \<open>other_candidates\<close>.
\<close>

fun categorize_loop :: "('z candidate_scheme) list
    \<Rightarrow> ('z candidate_scheme) list \<times> ('z candidate_scheme) list
        \<times> ('z candidate_scheme) list \<times> ('z candidate_scheme) list
    \<Rightarrow> ('z candidate_scheme) list \<times> ('z candidate_scheme) list
        \<times> ('z candidate_scheme) list \<times> ('z candidate_scheme) list" where
  "categorize_loop [] buckets = buckets"
| "categorize_loop (c # cs) (tech, behav, cog, other) =
    (case categorize_test_type (dict_get_default (test_type c) []) of
       Technical \<Rightarrow> categorize_loop cs (tech @ [c], behav, cog, other)
     | Behavioral \<Rightarrow> categorize_loop cs (tech, behav @ [c], cog, other)
     | Cognitive \<Rightarrow> categorize_loop cs (tech, behav, cog @ [c], other)
     | Other \<Rightarrow> categorize_loop cs (tech, behav, cog, other @ [c]))"

definition balance_by_domains :: "('z candidate_scheme) list \<Rightarrow> desired_domains \<Rightarrow> int
    \<Rightarrow> ('z candidate_scheme) list" where
  "balance_by_domains candidates desired k =
    (let wants_tech = wants_technical desired;
         wants_behav = wants_behavioral desired;
         wants_cog = wants_cognitive desired
     in
     if \<not> (wants_tech \<or> wants_behav \<or> wants_cog) then slice_to k candidates
     else
       (case categorize_loop candidates ([], [], [], []) of
          (tech_candidates, behav_candidates, cog_candidates, other_candidates) \<Rightarrow>
            let num_domains = (if wants_tech then 1 else 0) + (if wants_behav then 1 else 0)
                              + (if wants_cog then (1::int) else 0)
            in
            if num_domains = 0 then slice_to k candidates
            else
              let slots_per_domain = max 1 (k div num_domains);
                  result1 = (if wants_tech then slice_to slots_per_domain tech_candidates else []);
                  result2 = result1 @
                    (if wants_behav then slice_to slots_per_domain behav_candidates else []);
                  result3 = result2 @
                    (if wants_cog then slice_to slots_per_domain cog_candidates else []);
                  remaining = k - int (length result3);
                  result4 =
                    (if 0 < remaining
                     then result3 @
                       slice_to remaining (filter (\<lambda>c. c \<notin> set result3) candidates)
                     else result3)
              in slice_to k result4))"

subsection \<open>rerank\<close>

definition rerank :: "string \<Rightarrow> ('z candidate_scheme) list \<Rightarrow> int
    \<Rightarrow> error + ('z candidate_scheme) list" where
  "rerank query candidates k =
    (case infer_max_duration query of
       Inl e \<Rightarrow> Inl e
     | Inr max_duration \<Rightarrow>
         let domains = infer_desired_domains query;
             filtered = apply_duration_filter candidates max_duration;
             balanced = balance_by_domains filtered domains k
         in Inr (slice_to k balanced))"

section \<open>retrieval.py\<close>

text \<open>
  \<open>normalize_input\<close> reads the job description through \<open>fetch_jd_from_url\<close>, which
  does network input and may raise; it is the parameter \<open>fetch\<close>. The tests
  \<open>if jd_url:\<close> and \<open>if query_text:\<close> are tests of truthiness.
\<close>

definition normalize_input :: "(string \<Rightarrow> error + string) \<Rightarrow> string option \<Rightarrow> string option
    \<Rightarrow> error + string" where
  "normalize_input fetch query_text jd_url =
    (if truthy jd_url then
       (case fetch (the jd_url) of
          Inl e \<Rightarrow> Inl e
        | Inr jd_text \<Rightarrow>
            if truthy query_text then Inr (str_strip (the query_text) @ [CHR 0x0A, CHR 0x0A] @ jd_text)
            else Inr jd_text)
     else if truthy query_text then Inr (str_strip (the query_text))
     else Inl ValueError)"

section \<open>recommend.py\<close>

text \<open>The dictionary that \<open>recommend\<close> builds for one ranked candidate.\<close>

record recommendation =
  assessment_name :: "string option"
  assessment_url :: "string option"
  rec_test_type :: "string option"
  rec_duration_minutes :: "int option"
  rec_category :: "string option"
  synthetic :: bool

definition format_output :: "'z candidate_scheme \<Rightarrow> recommendation" where
  "format_output c =
    \<lparr>assessment_name = dict_get_default (name c) ''Unknown'',
     assessment_url = dict_get_default (url c) [],
     rec_test_type = dict_get (test_type c),
     rec_duration_minutes = dict_get (duration_minutes c),
     rec_category = dict_get (category c),
     synthetic = (dict_get (url c) = None)\<rparr>"

text \<open>
  \<open>retrieve\<close> stands for \<open>service.retrieve_candidates\<close>, which embeds the text and
  searches the vector index; \<open>recommend\<close> calls it with \<open>top_k=50\<close>.
\<close>

definition recommend :: "(string \<Rightarrow> error + string)
    \<Rightarrow> (string \<Rightarrow> int \<Rightarrow> error + ('z candidate_scheme) list)
    \<Rightarrow> string option \<Rightarrow> string option \<Rightarrow> int \<Rightarrow> error + recommendation list" where
  "recommend fetch retrieve query jd_url top_k =
    (case normalize_input fetch query jd_url of
       Inl e \<Rightarrow> Inl e
     | Inr text \<Rightarrow>
         (case retrieve text 50 of
            Inl e \<Rightarrow> Inl e
          | Inr candidates \<Rightarrow>
              if candidates = [] then Inr []
              else (case rerank text candidates top_k of
                      Inl e \<Rightarrow> Inl e
                    | Inr ranked \<Rightarrow> Inr (map format_output ranked))))"

section \<open>The specification's reading of the balancing step\<close>

text \<open>
  The algorithm of \<open>balance_by_domains\<close> as the specification words it, for a count
  \<open>k\<close>: buckets by domain in rank order, \<open>max(1, k // n)\<close> slots for each desired
  domain in the order technical, behavioral, cognitive, the remaining slots filled from
  the whole list in rank order without the candidates already selected, at most \<open>k\<close>
  results.
\<close>

definition domain_of :: "'z candidate_scheme \<Rightarrow> domain" where
  "domain_of c = categorize_test_type (dict_get_default (test_type c) [])"

definition bucket :: "domain \<Rightarrow> ('z candidate_scheme) list \<Rightarrow> ('z candidate_scheme) list" where
  "bucket d candidates = filter (\<lambda>c. domain_of c = d) candidates"

definition num_desired :: "desired_domains \<Rightarrow> nat" where
  "num_desired desired =
    length (filter id [wants_technical desired, wants_behavioral desired, wants_cognitive desired])"

definition domain_picks :: "('z candidate_scheme) list \<Rightarrow> desired_domains \<Rightarrow> nat
    \<Rightarrow> ('z candidate_scheme) list" where
  "domain_picks candidates desired k =
    (let slots_per_domain = max 1 (k div num_desired desired) in
     (if wants_technical desired then take slots_per_domain (bucket Technical candidates) else [])
     @ (if wants_behavioral desired then take slots_per_domain (bucket Behavioral candidates) else [])
     @ (if wants_cognitive desired then take slots_per_domain (bucket Cognitive candidates) else []))"

definition balance_spec :: "('z candidate_scheme) list \<Rightarrow> desired_domains \<Rightarrow> nat
    \<Rightarrow> ('z candidate_scheme) list" where
  "balance_spec candidates desired k =
    (if num_desired desired = 0 then take k candidates
     else
       let picks = domain_picks candidates desired k;
           fill = filter (\<lambda>c. c \<notin> set picks) candidates
       in take k (picks @ take (k - length picks) fill))"

section \<open>Example data\<close>

definition example_candidate :: "string \<Rightarrow> string field \<Rightarrow> string field \<Rightarrow> int field
    \<Rightarrow> candidate" where
  "example_candidate n u t d =
    \<lparr>name = Val n, url = u, test_type = t, duration_minutes = d, category = Null\<rparr>"

definition example_catalog :: "candidate list" where
  "example_catalog =
    [example_candidate ''K1'' (Val ''u1'') (Val ''K'') (Val 30),
     example_candidate ''P1'' (Val ''u2'') (Val ''P'') (Val 25),
     example_candidate ''K2'' (Val ''u3'') (Val ''k'') Null,
     example_candidate ''C1'' (Val ''u4'') (Val ''C'') (Val 20),
     example_candidate ''P2'' Null (Val ''L'') (Val 45),
     example_candidate ''K3'' (Val ''u6'') (Val ''V'') (Val 60),
     example_candidate ''P3'' (Val ''u7'') (Val ''P'') Missing,
     example_candidate ''K4'' (Val ''u8'') (Val ''K'') (Val 15),
     example_candidate ''X1'' Missing Null (Val 10),
     example_candidate ''P4'' (Val ''u10'') (Val ''P'') (Val 35),
     example_candidate ''K5'' (Val ''u11'') (Val ''K'') (Val 50),
     example_candidate ''P5'' (Val ''u12'') (Val ''L'') (Val 40),
     example_candidate ''K6'' (Val ''u13'') (Val ''K'') (Val 90)]"

section \<open>Auxiliary definitions of the proofs\<close>

text \<open>
  The candidates that \<open>balance_by_domains\<close> picks for the desired domains (its list
  \<open>result\<close> before the fill), for a Python integer \<open>k\<close>.
\<close>

definition picks_of :: "('z candidate_scheme) list \<Rightarrow> desired_domains \<Rightarrow> int
    \<Rightarrow> ('z candidate_scheme) list" where
  "picks_of cs d k =
    (let slots = max 1 (k div int (num_desired d)) in
     (if wants_technical d then slice_to slots (bucket Technical cs) else [])
     @ (if wants_behavioral d then slice_to slots (bucket Behavioral cs) else [])
     @ (if wants_cognitive d then slice_to slots (bucket Cognitive cs) else []))"

section \<open>Properties\<close>

lemma duration_loop_filter:
  "duration_loop m cs acc = acc @ filter (within_duration m) cs"
  by (induction cs arbitrary: acc) (auto simp: within_duration_def split: option.splits)

subsection \<open>categorize_test_type\<close>

lemma map_of_mapping:
  "map_of mapping n =
    (if n = ''K'' \<or> n = ''V'' then Some Technical
     else if n = ''P'' \<or> n = ''L'' then Some Behavioral
     else if n = ''C'' \<or> n = ''N'' \<or> n = ''R'' then Some Cognitive
     else None)"
  by (simp add: mapping_def)

lemma normalise_letters:
  "str_strip (str_upper ''K'') = ''K''" "str_strip (str_upper ''V'') = ''V''"
  "str_strip (str_upper ''P'') = ''P''" "str_strip (str_upper ''L'') = ''L''"
  "str_strip (str_upper ''C'') = ''C''" "str_strip (str_upper ''N'') = ''N''"
  "str_strip (str_upper ''R'') = ''R''" "str_strip (str_upper ''X'') = ''X''"
  "str_strip (str_upper '' v '') = ''V''"
  "str_strip (str_upper [CHR 0xA0, CHR ''k'', CHR 0x85]) = ''K''"
  by code_simp+

text \<open>
  C10, as the code has it. \<open>categorize_test_type\<close> maps an absent or empty code to
  \<open>other\<close>. Any other code is first put in upper case and stripped of surrounding
  whitespace; the result is looked up in the fixed table K, V to technical, P, L to
  behavioral, C, N, R to cognitive, and a code that is not in the table after this
  normalisation is mapped to \<open>other\<close>.
\<close>

theorem categorize_test_type_table:
  "categorize_test_type None = Other \<and> categorize_test_type (Some []) = Other \<and>
   (t \<noteq> [] \<longrightarrow>
      categorize_test_type (Some t) =
        (let n = str_strip (str_upper t) in
         if n = ''K'' \<or> n = ''V'' then Technical
         else if n = ''P'' \<or> n = ''L'' then Behavioral
         else if n = ''C'' \<or> n = ''N'' \<or> n = ''R'' then Cognitive
         else Other))"
  by (simp add: categorize_test_type_def map_of_mapping Let_def)

theorem categorize_test_type_table_witness:
  "categorize_test_type (Some ''K'') = Technical \<and> categorize_test_type (Some ''V'') = Technical \<and>
   categorize_test_type (Some ''P'') = Behavioral \<and> categorize_test_type (Some ''L'') = Behavioral \<and>
   categorize_test_type (Some ''C'') = Cognitive \<and> categorize_test_type (Some ''N'') = Cognitive \<and>
   categorize_test_type (Some ''R'') = Cognitive \<and> categorize_test_type (Some ''X'') = Other \<and>
   categorize_test_type (Some '' v '') = Technical \<and>
   categorize_test_type (Some [CHR 0xA0, CHR ''k'', CHR 0x85]) = Technical"
  using categorize_test_type_table [of "''K''"] categorize_test_type_table [of "''V''"]
    categorize_test_type_table [of "''P''"] categorize_test_type_table [of "''L''"]
    categorize_test_type_table [of "''C''"] categorize_test_type_table [of "''N''"]
    categorize_test_type_table [of "''R''"] categorize_test_type_table [of "''X''"]
    categorize_test_type_table [of "'' v ''"]
    categorize_test_type_table [of "[CHR 0xA0, CHR ''k'', CHR 0x85]"]
  by (simp add: normalise_letters)

text \<open>
  The lower-case letter \<open>k\<close> is not a code of the table, and it is not mapped to
  \<open>other\<close>.
\<close>

theorem categorize_test_type_lower_case_counterexample:
  "map_of mapping ''k'' = None \<and> categorize_test_type (Some ''k'') = Technical"
  by code_simp

subsection \<open>apply_duration_filter\<close>

text \<open>
  C6. Without a bound the candidates are returned unchanged. With a bound \<open>m\<close> the
  result is the list of the candidates whose duration is absent or at most \<open>m\<close>, in
  their order. A candidate of 45 minutes is kept for the bound 60 and dropped for the
  bound 30, and a candidate without a duration is kept for every bound.
\<close>

theorem apply_duration_filter_keeps:
  "apply_duration_filter cs None = cs \<and>
   apply_duration_filter cs (Some m) = filter (within_duration m) cs \<and>
   (within_duration m c \<longleftrightarrow>
      dict_get (duration_minutes c) = None \<or>
      (\<exists>dur. dict_get (duration_minutes c) = Some dur \<and> dur \<le> m)) \<and>
   within_duration 60 (c\<lparr>duration_minutes := Val 45\<rparr>) \<and>
   \<not> within_duration 30 (c\<lparr>duration_minutes := Val 45\<rparr>) \<and>
   within_duration m (c\<lparr>duration_minutes := Missing\<rparr>) \<and>
   within_duration m (c\<lparr>duration_minutes := Null\<rparr>)"
  by (auto simp: apply_duration_filter_def duration_loop_filter within_duration_def
      split: option.splits)

theorem apply_duration_filter_keeps_witness:
  "apply_duration_filter
     [example_candidate ''A'' Null (Val ''K'') (Val 45),
      example_candidate ''B'' Null (Val ''P'') Missing,
      example_candidate ''C'' Null (Val ''C'') (Val 90)] (Some 60)
   = [example_candidate ''A'' Null (Val ''K'') (Val 45),
      example_candidate ''B'' Null (Val ''P'') Missing] \<and>
   apply_duration_filter
     [example_candidate ''A'' Null (Val ''K'') (Val 45),
      example_candidate ''B'' Null (Val ''P'') Missing] (Some 30)
   = [example_candidate ''B'' Null (Val ''P'') Missing]"
  using apply_duration_filter_keeps [of
      "[example_candidate ''A'' Null (Val ''K'') (Val 45),
        example_candidate ''B'' Null (Val ''P'') Missing,
        example_candidate ''C'' Null (Val ''C'') (Val 90)]" 60
      "example_candidate ''A'' Null (Val ''K'') (Val 45)"]
    apply_duration_filter_keeps [of
      "[example_candidate ''A'' Null (Val ''K'') (Val 45),
        example_candidate ''B'' Null (Val ''P'') Missing]" 30
      "example_candidate ''A'' Null (Val ''K'') (Val 45)"]
  by (simp add: within_duration_def example_candidate_def)

subsection \<open>normalize_input\<close>

lemma strip_example: "str_strip ''  java dev '' = ''java dev''"
  "str_strip ([CHR 0xA0] @ ''java'' @ [CHR 0xA0]) = ''java''"
  by code_simp+

text \<open>
  C7, as the code has it. A query text or a URL counts as given when it is present and
  not empty. With both given, the result is the trimmed query text, a blank line and the
  fetched text; with the URL alone, the fetched text; with the query text alone, the
  trimmed query text; with neither, the error. A failure of the fetch is the result.
\<close>

theorem normalize_input_cases:
  "(q \<noteq> [] \<and> u \<noteq> [] \<and> fetch u = Inr jd \<longrightarrow>
      normalize_input fetch (Some q) (Some u) = Inr (str_strip q @ [CHR 0x0A, CHR 0x0A] @ jd)) \<and>
   (\<not> truthy qo \<and> u \<noteq> [] \<and> fetch u = Inr jd \<longrightarrow>
      normalize_input fetch qo (Some u) = Inr jd) \<and>
   (q \<noteq> [] \<and> \<not> truthy uo \<longrightarrow> normalize_input fetch (Some q) uo = Inr (str_strip q)) \<and>
   (\<not> truthy qo \<and> \<not> truthy uo \<longrightarrow> normalize_input fetch qo uo = Inl ValueError) \<and>
   (u \<noteq> [] \<and> fetch u = Inl e \<longrightarrow> normalize_input fetch qo (Some u) = Inl e)"
  by (simp add: normalize_input_def)

theorem normalize_input_cases_witness:
  "normalize_input (\<lambda>u. Inr ''jd'') (Some ''  java dev '') (Some ''u'')
     = Inr (''java dev'' @ [CHR 0x0A, CHR 0x0A] @ ''jd'') \<and>
   normalize_input (\<lambda>u. Inr ''jd'') None (Some ''u'') = Inr ''jd'' \<and>
   normalize_input (\<lambda>u. Inr ''jd'') (Some ''  java dev '') None = Inr ''java dev'' \<and>
   normalize_input (\<lambda>u. Inr ''jd'') None (Some []) = Inl ValueError \<and>
   normalize_input (\<lambda>u. Inl FetchError) (Some ''java'') (Some ''u'') = Inl FetchError \<and>
   normalize_input (\<lambda>u. Inr ''jd'') (Some ([CHR 0xA0] @ ''java'' @ [CHR 0xA0])) None = Inr ''java''"
  using normalize_input_cases [of "''  java dev ''" "''u''" "\<lambda>u. Inr ''jd''" "''jd''" None None]
    normalize_input_cases [of "''  java dev ''" "''u''" "\<lambda>u. Inr ''jd''" "''jd''" None "Some []"]
    normalize_input_cases [of "''java''" "''u''" "\<lambda>u. Inl FetchError" "''jd''" "Some ''java''"
      None FetchError]
    normalize_input_cases [of "[CHR 0xA0] @ ''java'' @ [CHR 0xA0]" "''u''" "\<lambda>u. Inr ''jd''"
      "''jd''" None None]
    strip_example(2)
  by (simp add: strip_example(1))

text \<open>
  An empty query text that is passed with a URL is not concatenated: the result is the
  fetched text alone, without the blank line. Passed alone, it is an error and not
  the trimmed text.
\<close>

theorem normalize_input_empty_query_counterexample:
  "normalize_input (\<lambda>u. Inr ''jd'') (Some []) (Some ''u'') = Inr ''jd'' \<and>
   ''jd'' \<noteq> str_strip [] @ [CHR 0x0A, CHR 0x0A] @ ''jd'' \<and>
   normalize_input (\<lambda>u. Inr ''jd'') (Some []) None = Inl ValueError"
  by (simp add: normalize_input_def str_strip_def)

subsection \<open>recommend: missing input\<close>

text \<open>
  C1, as the code has it. \<open>recommend\<close> without a query and without a URL raises the
  input error (\<open>ValueError\<close>), and so does \<open>recommend\<close> with the empty string as query
  and no URL, whatever the index holds: an empty query counts as not given.
\<close>

theorem recommend_missing_input:
  "recommend fetch retrieve None None top_k = Inl ValueError \<and>
   recommend fetch retrieve (Some []) None top_k = Inl ValueError"
  by (simp add: recommend_def normalize_input_def)

theorem recommend_missing_input_witness:
  "recommend (\<lambda>u. Inl FetchError) (\<lambda>t n. Inr [example_candidate ''B'' Null Null Null])
     None None 10 = Inl ValueError"
  using recommend_missing_input [of "\<lambda>u. Inl FetchError"
      "\<lambda>t n. Inr [example_candidate ''B'' Null Null Null]" 10]
  by simp

text \<open>
  With an index that returns a candidate for every text, the empty query is still an
  error and no ranked result is returned.
\<close>

theorem recommend_empty_query_counterexample:
  "recommend (\<lambda>u. Inr ''jd'') (\<lambda>t n. Inr [example_candidate ''A'' Null Null Null])
     (Some []) None 10 = Inl ValueError"
  by (simp add: recommend_def normalize_input_def)


subsection \<open>infer_desired_domains\<close>

lemma str_contains_sublist: "str_contains kw s \<longleftrightarrow> sublist kw s"
  by (induction s) (simp_all add: sublist_Cons_right)

lemma sublist_map_iff:
  "sublist kw (map f q) \<longleftrightarrow> (\<exists>pre w post. q = pre @ w @ post \<and> map f w = kw)"
proof
  assume "sublist kw (map f q)"
  then obtain ps ss where "ps @ (kw @ ss) = map f q" by (auto simp: sublist_def)
  then obtain pre r where q: "q = pre @ r" and r: "kw @ ss = map f r"
    unfolding append_eq_map_conv by blast
  from r obtain w post where "r = w @ post" and "kw = map f w"
    unfolding append_eq_map_conv by blast
  with q show "\<exists>pre w post. q = pre @ w @ post \<and> map f w = kw" by blast
next
  assume "\<exists>pre w post. q = pre @ w @ post \<and> map f w = kw"
  then obtain pre w post where "q = pre @ w @ post" and "map f w = kw" by blast
  then have "map f q = map f pre @ kw @ map f post" by simp
  then show "sublist kw (map f q)" unfolding sublist_def by blast
qed

lemma any_kw_in_iff:
  "any_kw_in kws (str_lower q) \<longleftrightarrow>
     (\<exists>kw\<in>set kws. \<exists>pre w post. q = pre @ w @ post \<and> str_lower w = kw)"
  unfolding any_kw_in_def list_ex_iff str_contains_sublist str_lower_def sublist_map_iff ..

text \<open>
  C5, as the code has it. Each of the three flags is true exactly when the text contains,
  in any letter case, a keyword of the list of its domain; the flags are computed
  independently. The technical list has \<open>developer\<close>, \<open>sql\<close> and \<open>coding\<close>, the
  behavioral list has \<open>leadership\<close>, \<open>collaborate\<close> and \<open>team\<close>, and the cognitive list
  has \<open>reasoning\<close>, \<open>aptitude\<close> and \<open>numeracy\<close>: a text that contains one of them in
  any letter case has the flag of that domain.
\<close>

theorem infer_desired_domains_keywords:
  "(wants_technical (infer_desired_domains q) \<longleftrightarrow>
      (\<exists>kw\<in>set technical_kw. \<exists>pre w post. q = pre @ w @ post \<and> str_lower w = kw)) \<and>
   (wants_behavioral (infer_desired_domains q) \<longleftrightarrow>
      (\<exists>kw\<in>set behavioral_kw. \<exists>pre w post. q = pre @ w @ post \<and> str_lower w = kw)) \<and>
   (wants_cognitive (infer_desired_domains q) \<longleftrightarrow>
      (\<exists>kw\<in>set cognitive_kw. \<exists>pre w post. q = pre @ w @ post \<and> str_lower w = kw)) \<and>
   (str_lower w \<in> {''developer'', ''sql'', ''coding''} \<longrightarrow>
      wants_technical (infer_desired_domains (pre @ w @ post))) \<and>
   (str_lower w \<in> {''leadership'', ''collaborate'', ''team''} \<longrightarrow>
      wants_behavioral (infer_desired_domains (pre @ w @ post))) \<and>
   (str_lower w \<in> {''reasoning'', ''aptitude'', ''numeracy''} \<longrightarrow>
      wants_cognitive (infer_desired_domains (pre @ w @ post)))"
proof -
  have flags:
    "wants_technical (infer_desired_domains t) = any_kw_in technical_kw (str_lower t)"
    "wants_behavioral (infer_desired_domains t) = any_kw_in behavioral_kw (str_lower t)"
    "wants_cognitive (infer_desired_domains t) = any_kw_in cognitive_kw (str_lower t)" for t
    by (simp_all add: infer_desired_domains_def Let_def)
  have tech: "{''developer'', ''sql'', ''coding''} \<subseteq> set technical_kw"
    by (simp add: technical_kw_def)
  have behav: "{''leadership'', ''collaborate'', ''team''} \<subseteq> set behavioral_kw"
    by (simp add: behavioral_kw_def)
  have cog: "{''reasoning'', ''aptitude'', ''numeracy''} \<subseteq> set cognitive_kw"
    by (simp add: cognitive_kw_def)
  show ?thesis
    unfolding flags any_kw_in_iff using tech behav cog by blast
qed

lemma lower_examples:
  "str_lower ''SQL'' = ''sql''" "str_lower ''Leadership'' = ''leadership''"
  "str_lower ''REASONING'' = ''reasoning''"
  by code_simp+

theorem infer_desired_domains_keywords_witness:
  "wants_technical (infer_desired_domains (''Senior '' @ ''SQL'' @ '' analyst'')) \<and>
   wants_behavioral (infer_desired_domains (''with '' @ ''Leadership'' @ [])) \<and>
   wants_cognitive (infer_desired_domains ([] @ ''REASONING'' @ '' test''))"
  using infer_desired_domains_keywords [of "[]" "''SQL''" "''Senior ''" "'' analyst''"]
    infer_desired_domains_keywords [of "[]" "''Leadership''" "''with ''" "[]"]
    infer_desired_domains_keywords [of "[]" "''REASONING''" "[]" "'' test''"]
  by (simp add: lower_examples)

text \<open>
  The word \<open>numerical\<close> is not a keyword of the cognitive list and contains none: a text
  that consists of it has no cognitive flag.
\<close>

theorem infer_desired_domains_numerical_counterexample:
  "\<not> wants_cognitive (infer_desired_domains ''numerical'')"
  by code_simp

subsection \<open>infer_max_duration\<close>


















































text \<open>
  For a number so large that its float or the product is infinite, \<open>int\<close> raises: the
  conjuncts above that give a result ask for a finite product.
\<close>

lemma infer_max_duration_overflow:
  "py_int (float_mul Infinity 60) = Inl OverflowError"
  "re_search number_group hours_tail q = Some g \<Longrightarrow>
   py_int (float_mul (py_float g) 60) = Inl e \<Longrightarrow> infer_max_duration q = Inl e"
  by (simp_all add: infer_max_duration_def patterns_def)

subsection \<open>balance_by_domains\<close>

lemma categorize_loop_buckets:
  "categorize_loop cs (a, b, c, d) =
    (a @ bucket Technical cs, b @ bucket Behavioral cs, c @ bucket Cognitive cs, d @ bucket Other cs)"
proof (induction cs arbitrary: a b c d)
  case Nil
  then show ?case by (simp add: bucket_def)
next
  case (Cons x xs)
  show ?case
    by (cases "domain_of x") (simp_all add: Cons bucket_def domain_of_def)
qed

lemma slice_to_nonneg: "0 \<le> k \<Longrightarrow> slice_to k xs = take (nat k) xs"
  by (simp add: slice_to_def)

lemma slice_to_take: "\<exists>n. slice_to k xs = take n xs"
  by (auto simp: slice_to_def)

lemma num_desired_int:
  "int (num_desired d) = (if wants_technical d then 1 else 0) + (if wants_behavioral d then 1 else 0)
                              + (if wants_cognitive d then (1::int) else 0)"
  by (simp add: num_desired_def)

lemma num_desired_0: "num_desired d = 0 \<longleftrightarrow> \<not> (wants_technical d \<or> wants_behavioral d \<or> wants_cognitive d)"
  by (simp add: num_desired_def)

lemma balance_unfold:
  "balance_by_domains cs d k =
    (if num_desired d = 0 then slice_to k cs
     else
       let picks = picks_of cs d k; remaining = k - int (length picks) in
       slice_to k (if 0 < remaining
                   then picks @ slice_to remaining (filter (\<lambda>c. c \<notin> set picks) cs)
                   else picks))"
proof (cases "num_desired d = 0")
  case True
  then show ?thesis by (simp add: balance_by_domains_def num_desired_0)
next
  case False
  then have pos: "int (num_desired d) \<noteq> 0" by simp
  from False have some: "wants_technical d \<or> wants_behavioral d \<or> wants_cognitive d"
    by (simp add: num_desired_0)
  have "balance_by_domains cs d k =
      (let picks = picks_of cs d k; remaining = k - int (length picks) in
       slice_to k (if 0 < remaining
                   then picks @ slice_to remaining (filter (\<lambda>c. c \<notin> set picks) cs)
                   else picks))"
    unfolding balance_by_domains_def categorize_loop_buckets picks_of_def Let_def
      num_desired_int [symmetric]
    using some pos by simp
  with False show ?thesis by simp
qed

lemma picks_of_nonneg:
  assumes "0 \<le> k" "num_desired d \<noteq> 0"
  shows "picks_of cs d k = domain_picks cs d (nat k)"
proof -
  have "nat (k div int (num_desired d)) = nat k div num_desired d"
    using assms by (simp add: nat_div_distrib)
  then have "nat (max 1 (k div int (num_desired d))) = max 1 (nat k div num_desired d)"
    by (simp add: max_def) linarith
  moreover have "0 \<le> max 1 (k div int (num_desired d))" by simp
  ultimately show ?thesis
    by (simp add: picks_of_def domain_picks_def Let_def slice_to_nonneg)
qed

lemma balance_spec_eq:
  assumes "0 \<le> k"
  shows "balance_by_domains cs d k = balance_spec cs d (nat k)"
proof (cases "num_desired d = 0")
  case True
  with assms show ?thesis by (simp add: balance_unfold balance_spec_def slice_to_nonneg)
next
  case False
  let ?picks = "domain_picks cs d (nat k)"
  show ?thesis
  proof (cases "0 < k - int (length ?picks)")
    case True
    then have "nat (k - int (length ?picks)) = nat k - length ?picks" by simp
    with True False assms show ?thesis
      by (simp add: balance_unfold balance_spec_def picks_of_nonneg slice_to_nonneg Let_def)
  next
    case rem: False
    then have "nat k - length ?picks = 0" by simp
    with rem False assms show ?thesis
      by (simp add: balance_unfold balance_spec_def picks_of_nonneg slice_to_nonneg Let_def)
  qed
qed

lemma balance_two_domains:
  assumes "wants_technical d" "wants_behavioral d" "\<not> wants_cognitive d"
    and "5 \<le> length (bucket Technical cs)" "5 \<le> length (bucket Behavioral cs)"
  shows "balance_by_domains cs d 10 = take 5 (bucket Technical cs) @ take 5 (bucket Behavioral cs)"
proof -
  have n: "num_desired d = 2" using assms by (simp add: num_desired_def)
  have picks: "domain_picks cs d 10 = take 5 (bucket Technical cs) @ take 5 (bucket Behavioral cs)"
    using assms by (simp add: domain_picks_def n)
  have len: "length (domain_picks cs d 10) = 10" using assms by (simp add: picks)
  have "balance_by_domains cs d 10 = balance_spec cs d (nat 10)" by (rule balance_spec_eq) simp
  also have "\<dots> = domain_picks cs d 10" by (simp add: balance_spec_def n len Let_def)
  finally show ?thesis by (simp add: picks)
qed
lemma set_slice_to: "set (slice_to k xs) \<subseteq> set xs"
  by (auto simp: slice_to_def dest: in_set_takeD)

lemma distinct_slice_to: "distinct xs \<Longrightarrow> distinct (slice_to k xs)"
  by (simp add: slice_to_def)

lemma length_slice_to: "0 \<le> k \<Longrightarrow> int (length (slice_to k xs)) \<le> k"
  by (simp add: slice_to_def)

lemma set_picks_of: "set (picks_of cs d k) \<subseteq> set cs"
  using set_slice_to by (fastforce simp: picks_of_def Let_def bucket_def)

lemma distinct_picks_of:
  assumes "distinct cs"
  shows "distinct (picks_of cs d k)"
proof -
  have d: "distinct (slice_to n (bucket dom cs))" for n dom
    using assms by (simp add: distinct_slice_to bucket_def)
  have disj: "dom \<noteq> dom' \<Longrightarrow> set (slice_to n (bucket dom cs)) \<inter> set (slice_to n' (bucket dom' cs)) = {}"
    for n n' dom dom'
    using set_slice_to [of n "bucket dom cs"] set_slice_to [of n' "bucket dom' cs"]
    by (auto simp: bucket_def)
  show ?thesis
    by (simp add: picks_of_def Let_def d disj Int_Un_distrib)
qed

lemma set_balance: "set (balance_by_domains cs d k) \<subseteq> set cs"
proof -
  have "set (slice_to r (filter P cs)) \<subseteq> set cs" for r P
    using set_slice_to [of r "filter P cs"] by auto
  with set_picks_of [of cs d k] set_slice_to [of k cs] show ?thesis
    unfolding balance_unfold Let_def
    by (auto dest!: subsetD [OF set_slice_to])
qed

lemma distinct_balance:
  assumes "distinct cs"
  shows "distinct (balance_by_domains cs d k)"
proof -
  let ?picks = "picks_of cs d k"
  have fill: "distinct (slice_to r (filter (\<lambda>c. c \<notin> set ?picks) cs))" for r
    using assms by (simp add: distinct_slice_to)
  have disj: "set ?picks \<inter> set (slice_to r (filter (\<lambda>c. c \<notin> set ?picks) cs)) = {}" for r
    using set_slice_to [of r "filter (\<lambda>c. c \<notin> set ?picks) cs"] by auto
  show ?thesis
    unfolding balance_unfold Let_def
    using assms fill disj by (simp add: distinct_slice_to distinct_picks_of)
qed


lemma example_buckets:
  "5 \<le> length (bucket Technical example_catalog)"
  "5 \<le> length (bucket Behavioral example_catalog)"
  by code_simp+

lemma example_two_domains:
  "take 5 (bucket Technical example_catalog) @ take 5 (bucket Behavioral example_catalog)
   = [example_catalog ! 0, example_catalog ! 2, example_catalog ! 5, example_catalog ! 7,
      example_catalog ! 10, example_catalog ! 1, example_catalog ! 4, example_catalog ! 6,
      example_catalog ! 9, example_catalog ! 11]"
  by code_simp

lemma example_cognitive:
  "balance_spec example_catalog
     \<lparr>wants_technical = False, wants_behavioral = False, wants_cognitive = True\<rparr> 3
   = [example_catalog ! 3, example_catalog ! 0, example_catalog ! 1]"
  by code_simp

text \<open>
  C2. The number \<open>k\<close> of results is a count: a Python integer that is not negative.
  For every candidate list, desired domains and count \<open>k\<close>, \<open>balance_by_domains\<close>
  computes what the specification describes (\<open>balance_spec\<close>): the first \<open>k\<close>
  candidates when no domain is desired; otherwise up to \<open>max(1, k // n)\<close> candidates of
  each desired domain's bucket, in the order technical, behavioral, cognitive and in
  rank order within a bucket, then the other candidates in rank order for the remaining
  slots, at most \<open>k\<close> in all. With technical and behavioral desired, \<open>k = 10\<close> and five
  or more candidates in both buckets the result is the first five technical candidates
  followed by the first five behavioral ones.
\<close>

theorem balance_by_domains_spec:
  "(0 \<le> k \<longrightarrow> balance_by_domains cs d k = balance_spec cs d (nat k)) \<and>
   (wants_technical d \<and> wants_behavioral d \<and> \<not> wants_cognitive d \<and>
    5 \<le> length (bucket Technical cs) \<and> 5 \<le> length (bucket Behavioral cs) \<longrightarrow>
      balance_by_domains cs d 10 = take 5 (bucket Technical cs) @ take 5 (bucket Behavioral cs))"
  using balance_spec_eq [of k cs d] balance_two_domains [of d cs] by blast

theorem balance_by_domains_spec_witness:
  "balance_by_domains example_catalog
     \<lparr>wants_technical = True, wants_behavioral = True, wants_cognitive = False\<rparr> 10
   = [example_catalog ! 0, example_catalog ! 2, example_catalog ! 5, example_catalog ! 7,
      example_catalog ! 10, example_catalog ! 1, example_catalog ! 4, example_catalog ! 6,
      example_catalog ! 9, example_catalog ! 11] \<and>
   balance_by_domains example_catalog
     \<lparr>wants_technical = False, wants_behavioral = False, wants_cognitive = True\<rparr> 3
   = [example_catalog ! 3, example_catalog ! 0, example_catalog ! 1]"
proof -
  have "balance_by_domains example_catalog
      \<lparr>wants_technical = True, wants_behavioral = True, wants_cognitive = False\<rparr> 10
    = take 5 (bucket Technical example_catalog) @ take 5 (bucket Behavioral example_catalog)"
    using balance_by_domains_spec [THEN conjunct2, rule_format, of
        "\<lparr>wants_technical = True, wants_behavioral = True, wants_cognitive = False\<rparr>"
        example_catalog]
      example_buckets
    by simp
  moreover have "balance_by_domains example_catalog
      \<lparr>wants_technical = False, wants_behavioral = False, wants_cognitive = True\<rparr> 3
    = balance_spec example_catalog
      \<lparr>wants_technical = False, wants_behavioral = False, wants_cognitive = True\<rparr> (nat 3)"
    using balance_by_domains_spec [THEN conjunct1, rule_format, of 3 example_catalog
        "\<lparr>wants_technical = False, wants_behavioral = False, wants_cognitive = True\<rparr>"]
    by simp
  ultimately show ?thesis
    by (simp add: example_two_domains example_cognitive)
qed

text \<open>
  The model keeps Python's slices for a negative \<open>k\<close>, which no caller passes:
  \<open>candidates[:-1]\<close> is the list without its last element.
\<close>

lemma balance_by_domains_negative_k:
  "balance_by_domains (take 3 example_catalog)
     \<lparr>wants_technical = False, wants_behavioral = False, wants_cognitive = False\<rparr> (- 1)
   = take 2 example_catalog"
  by code_simp

subsection \<open>rerank\<close>

lemma rerank_total: "infer_max_duration q = Inr md \<Longrightarrow> \<exists>out. rerank q cs k = Inr out"
  by (simp add: rerank_def Let_def)

lemma example_no_constraint:
  "infer_max_duration ''x'' = Inr None"
  "infer_desired_domains ''x''
     = \<lparr>wants_technical = False, wants_behavioral = False, wants_cognitive = False\<rparr>"
  by code_simp+

lemma example_distinct: "distinct example_catalog"
  by code_simp

lemma example_rerank:
  "rerank ''java developer with leadership, max 40 mins'' example_catalog 4
   = Inr [example_catalog ! 0, example_catalog ! 2, example_catalog ! 1, example_catalog ! 6]"
  by code_simp

lemma rerank_bounds:
  assumes "rerank q cs k = Inr out"
  shows "(0 \<le> k \<longrightarrow> int (length out) \<le> k) \<and> set out \<subseteq> set cs \<and>
         (distinct cs \<longrightarrow> distinct out)"
proof -
  from assms obtain md where md: "infer_max_duration q = Inr md"
    and out: "out = slice_to k
        (balance_by_domains (apply_duration_filter cs md) (infer_desired_domains q) k)"
    by (auto simp: rerank_def Let_def split: sum.splits)
  let ?f = "apply_duration_filter cs md"
  have f_set: "set ?f \<subseteq> set cs"
    by (cases md) (auto simp: apply_duration_filter_def duration_loop_filter)
  have f_dist: "distinct cs \<Longrightarrow> distinct ?f"
    by (cases md) (auto simp: apply_duration_filter_def duration_loop_filter)
  have "set out \<subseteq> set ?f"
    unfolding out using set_slice_to set_balance by (rule subset_trans)
  with f_set have 1: "set out \<subseteq> set cs" by blast
  have 2: "distinct cs \<longrightarrow> distinct out"
    unfolding out using f_dist by (simp add: distinct_slice_to distinct_balance)
  have 3: "0 \<le> k \<longrightarrow> int (length out) \<le> k"
    unfolding out by (simp add: length_slice_to)
  from 1 2 3 show ?thesis by blast
qed

text \<open>
  C8. The number \<open>k\<close> of results is a count: a Python integer that is not negative.
  For every query text, candidate list and count \<open>k\<close>, the output of \<open>rerank\<close> has at
  most \<open>k\<close> records. Every record of the output is a record of the candidate list, and
  the output has no record twice when the candidates are pairwise distinct; these two
  hold for every integer \<open>k\<close>.
\<close>

theorem rerank_output:
  assumes "rerank q cs k = Inr out"
  shows "(0 \<le> k \<longrightarrow> int (length out) \<le> k) \<and> set out \<subseteq> set cs \<and>
         (distinct cs \<longrightarrow> distinct out)"
  using assms by (rule rerank_bounds)

theorem rerank_output_witness:
  "int (length [example_catalog ! 0, example_catalog ! 2, example_catalog ! 1,
                example_catalog ! 6]) \<le> 4 \<and>
   set [example_catalog ! 0, example_catalog ! 2, example_catalog ! 1, example_catalog ! 6]
     \<subseteq> set example_catalog \<and>
   distinct [example_catalog ! 0, example_catalog ! 2, example_catalog ! 1, example_catalog ! 6]"
  using rerank_output [OF example_rerank] example_distinct by simp

lemma rerank_negative_k:
  "rerank ''x'' (take 3 example_catalog) (- 1) = Inr (take 1 example_catalog)"
  by code_simp

subsection \<open>recommend: the output records\<close>

lemma example_recommend:
  "recommend (\<lambda>u. Inl FetchError) (\<lambda>text n. Inr example_catalog) (Some ''team lead'') None 4
   = Inr (map format_output
       [example_catalog ! 1, example_catalog ! 4, example_catalog ! 6, example_catalog ! 9])"
  by code_simp

lemma example_synthetic:
  "map synthetic (map format_output
       [example_catalog ! 1, example_catalog ! 4, example_catalog ! 6, example_catalog ! 9])
   = [False, True, False, False]"
  "format_output (example_catalog ! 8) =
     \<lparr>assessment_name = Some ''X1'', assessment_url = Some [], rec_test_type = None,
      rec_duration_minutes = Some 10, rec_category = None, synthetic = True\<rparr>"
  by code_simp+

text \<open>
  C9. The number \<open>top_k\<close> of results is a count: a Python integer that is not
  negative. When \<open>recommend\<close> returns a list, every record of it is built from a
  retrieved candidate and carries the candidate's display name (or \<open>Unknown\<close>), URL (or
  the empty string), test type, duration and category, with a flag \<open>synthetic\<close> that is
  true exactly when the candidate has no URL (the key is missing or holds \<open>None\<close>),
  and the list has between 0 and \<open>top_k\<close> records.
\<close>

theorem recommend_output:
  assumes "recommend fetch retrieve query jd_url top_k = Inr out"
  shows "(0 \<le> top_k \<longrightarrow> int (length out) \<le> top_k) \<and>
         (\<exists>text candidates. normalize_input fetch query jd_url = Inr text \<and>
            retrieve text 50 = Inr candidates \<and>
            (\<forall>r\<in>set out. \<exists>c\<in>set candidates.
               r = format_output c \<and>
               synthetic r = (url c = Missing \<or> url c = Null) \<and>
               assessment_name r = dict_get_default (name c) ''Unknown'' \<and>
               assessment_url r = dict_get_default (url c) [] \<and>
               rec_test_type r = dict_get (test_type c) \<and>
               rec_duration_minutes r = dict_get (duration_minutes c) \<and>
               rec_category r = dict_get (category c)))"
proof -
  from assms obtain normalized candidates
    where norm: "normalize_input fetch query jd_url = Inr normalized"
      and cands: "retrieve normalized 50 = Inr candidates"
      and rest: "(if candidates = [] then Inr []
                  else (case rerank normalized candidates top_k of
                          Inl e \<Rightarrow> Inl e
                        | Inr ranked \<Rightarrow> Inr (map format_output ranked))) = Inr out"
    by (auto simp: recommend_def split: sum.splits)
  have syn: "synthetic (format_output c) = (url c = Missing \<or> url c = Null)"
    for c :: "'a candidate_scheme"
    by (cases "url c") (simp_all add: format_output_def)
  have "\<exists>ranked. out = map format_output ranked \<and> set ranked \<subseteq> set candidates \<and>
          (0 \<le> top_k \<longrightarrow> int (length ranked) \<le> top_k)"
  proof (cases "candidates = []")
    case True
    with rest have "out = []" by simp
    then show ?thesis by simp
  next
    case False
    with rest obtain ranked where r: "rerank normalized candidates top_k = Inr ranked"
      and o: "out = map format_output ranked"
      by (auto split: sum.splits)
    have "set ranked \<subseteq> set candidates"
      and "0 \<le> top_k \<longrightarrow> int (length ranked) \<le> top_k"
      using rerank_bounds [OF r] by blast+
    with o show ?thesis by blast
  qed
  then obtain ranked where o: "out = map format_output ranked"
    and sub: "set ranked \<subseteq> set candidates"
    and len: "0 \<le> top_k \<longrightarrow> int (length ranked) \<le> top_k"
    by blast
  have "\<forall>r\<in>set out. \<exists>c\<in>set candidates.
               r = format_output c \<and>
               synthetic r = (url c = Missing \<or> url c = Null) \<and>
               assessment_name r = dict_get_default (name c) ''Unknown'' \<and>
               assessment_url r = dict_get_default (url c) [] \<and>
               rec_test_type r = dict_get (test_type c) \<and>
               rec_duration_minutes r = dict_get (duration_minutes c) \<and>
               rec_category r = dict_get (category c)"
  proof
    fix r assume "r \<in> set out"
    with o obtain c where c: "c \<in> set ranked" and r: "r = format_output c" by auto
    from c sub have "c \<in> set candidates" by blast
    moreover have "synthetic r = (url c = Missing \<or> url c = Null)"
      unfolding r by (rule syn)
    moreover have "assessment_name r = dict_get_default (name c) ''Unknown''"
      "assessment_url r = dict_get_default (url c) []"
      "rec_test_type r = dict_get (test_type c)"
      "rec_duration_minutes r = dict_get (duration_minutes c)"
      "rec_category r = dict_get (category c)"
      unfolding r by (simp_all add: format_output_def)
    ultimately show "\<exists>c\<in>set candidates.
               r = format_output c \<and>
               synthetic r = (url c = Missing \<or> url c = Null) \<and>
               assessment_name r = dict_get_default (name c) ''Unknown'' \<and>
               assessment_url r = dict_get_default (url c) [] \<and>
               rec_test_type r = dict_get (test_type c) \<and>
               rec_duration_minutes r = dict_get (duration_minutes c) \<and>
               rec_category r = dict_get (category c)"
      using r by blast
  qed
  moreover from o len have "0 \<le> top_k \<longrightarrow> int (length out) \<le> top_k" by simp
  ultimately show ?thesis using norm cands by blast
qed

theorem recommend_output_witness:
  "int (length (map format_output
      [example_catalog ! 1, example_catalog ! 4, example_catalog ! 6, example_catalog ! 9])) \<le> 4"
  using recommend_output [OF example_recommend] by simp

end
